theory Spec2Isabelle
  imports Complex_Main
begin

section \<open>JavaScript values\<close>

text \<open>
  The hook \<^verbatim>\<open>useUserData\<close> works on plain JavaScript objects delivered by the data
  service. A value is \<^verbatim>\<open>undefined\<close>, \<^verbatim>\<open>null\<close>, a boolean, a number, a string, an
  array or an object. Numbers are the rationals together with \<^verbatim>\<open>NaN\<close>: every finite
  double is a rational, so whole and fractional amounts are both values of the model,
  and arithmetic is exact (the infinities and the rounding of doubles, which sets in
  beyond \<open>2^53\<close> for whole numbers, are outside the model). An object is a map from
  property names to values; a property that is absent reads as \<^verbatim>\<open>undefined\<close>.
\<close>

datatype jsval =
    JUndefined
  | JNull
  | JBool bool
  | JNum rat
  | JNaN
  | JStr string
  | JArr "jsval list"
  | JObj "string \<Rightarrow> jsval option"

type_synonym obj = "string \<Rightarrow> jsval option"

text \<open>Property read \<^verbatim>\<open>o.k\<close>.\<close>

definition get :: "obj \<Rightarrow> string \<Rightarrow> jsval" where
  "get ob k = (case ob k of None \<Rightarrow> JUndefined | Some v \<Rightarrow> v)"

text \<open>\<^verbatim>\<open>ToBoolean\<close>: the test of \<^verbatim>\<open>!x\<close>, \<^verbatim>\<open>x || y\<close>, \<^verbatim>\<open>x && y\<close> and \<^verbatim>\<open>x ? a : b\<close>.\<close>

fun truthy :: "jsval \<Rightarrow> bool" where
  "truthy JUndefined = False"
| "truthy JNull = False"
| "truthy (JBool b) = b"
| "truthy (JNum n) = (n \<noteq> 0)"
| "truthy JNaN = False"
| "truthy (JStr s) = (s \<noteq> [])"
| "truthy (JArr xs) = True"
| "truthy (JObj ob) = True"

text \<open>\<^verbatim>\<open>a || b\<close> yields the left operand when it is truthy, the right one otherwise.\<close>

definition js_or :: "jsval \<Rightarrow> jsval \<Rightarrow> jsval" where
  "js_or a b = (if truthy a then a else b)"

text \<open>
  The conversions between strings and numbers (\<^verbatim>\<open>StringToNumber\<close>, which parses a
  numeric literal, and \<^verbatim>\<open>ToString\<close>, which prints a value) belong to the language
  runtime, not to this repository. They are parameters of the model: every theorem below
  holds whatever they compute. \<open>StringToNumber\<close> yields \<open>None\<close> for \<^verbatim>\<open>NaN\<close>.
\<close>

record coercions =
  StringToNumber :: "string \<Rightarrow> rat option"
  ToString :: "jsval \<Rightarrow> string"

text \<open>
  \<^verbatim>\<open>ToPrimitive\<close> of a plain array or object is its string form; \<^verbatim>\<open>ToNumber\<close> maps
  \<^verbatim>\<open>undefined\<close> to \<^verbatim>\<open>NaN\<close>, \<^verbatim>\<open>null\<close> to 0, \<^verbatim>\<open>false\<close>/\<^verbatim>\<open>true\<close> to 0/1 and parses
  strings. The result \<open>None\<close> stands for \<^verbatim>\<open>NaN\<close>.
\<close>

fun ToPrimitive :: "coercions \<Rightarrow> jsval \<Rightarrow> jsval" where
  "ToPrimitive cv (JArr xs) = JStr (ToString cv (JArr xs))"
| "ToPrimitive cv (JObj ob) = JStr (ToString cv (JObj ob))"
| "ToPrimitive cv v = v"

fun ToNumber :: "coercions \<Rightarrow> jsval \<Rightarrow> rat option" where
  "ToNumber cv JUndefined = None"
| "ToNumber cv JNull = Some 0"
| "ToNumber cv (JBool b) = Some (if b then 1 else 0)"
| "ToNumber cv (JNum n) = Some n"
| "ToNumber cv JNaN = None"
| "ToNumber cv (JStr s) = StringToNumber cv s"
| "ToNumber cv (JArr xs) = StringToNumber cv (ToString cv (JArr xs))"
| "ToNumber cv (JObj ob) = StringToNumber cv (ToString cv (JObj ob))"

fun is_string :: "jsval \<Rightarrow> bool" where
  "is_string (JStr s) = True"
| "is_string v = False"

text \<open>
  The comparisons of the source all have a number literal on the right
  (\<^verbatim>\<open>x > 0\<close>, \<^verbatim>\<open>x <= 0\<close>, \<^verbatim>\<open>x < MAX_FREE_SCANS\<close>): the left operand is converted to a
  number, and a comparison with \<^verbatim>\<open>NaN\<close> is false.
\<close>

definition js_gt :: "coercions \<Rightarrow> jsval \<Rightarrow> rat \<Rightarrow> bool" where
  "js_gt cv a n = (case ToNumber cv a of None \<Rightarrow> False | Some x \<Rightarrow> x > n)"

definition js_lt :: "coercions \<Rightarrow> jsval \<Rightarrow> rat \<Rightarrow> bool" where
  "js_lt cv a n = (case ToNumber cv a of None \<Rightarrow> False | Some x \<Rightarrow> x < n)"

definition js_le :: "coercions \<Rightarrow> jsval \<Rightarrow> rat \<Rightarrow> bool" where
  "js_le cv a n = (case ToNumber cv a of None \<Rightarrow> False | Some x \<Rightarrow> x \<le> n)"

text \<open>
  \<^verbatim>\<open>a + b\<close> concatenates when either operand is a string after \<^verbatim>\<open>ToPrimitive\<close> and
  adds numbers otherwise; \<^verbatim>\<open>a - b\<close> always subtracts numbers. \<^verbatim>\<open>NaN\<close> is absorbing.
\<close>

definition js_add :: "coercions \<Rightarrow> jsval \<Rightarrow> jsval \<Rightarrow> jsval" where
  "js_add cv a b =
     (let pa = ToPrimitive cv a; pb = ToPrimitive cv b in
      if is_string pa \<or> is_string pb then JStr (ToString cv pa @ ToString cv pb)
      else (case (ToNumber cv pa, ToNumber cv pb) of
              (Some x, Some y) \<Rightarrow> JNum (x + y)
            | _ \<Rightarrow> JNaN))"

definition js_sub :: "coercions \<Rightarrow> jsval \<Rightarrow> jsval \<Rightarrow> jsval" where
  "js_sub cv a b =
     (case (ToNumber cv a, ToNumber cv b) of
        (Some x, Some y) \<Rightarrow> JNum (x - y)
      | _ \<Rightarrow> JNaN)"

text \<open>\<^verbatim>\<open>Math.max(a, b)\<close>: \<^verbatim>\<open>NaN\<close> when either argument converts to \<^verbatim>\<open>NaN\<close>.\<close>

definition Math_max :: "coercions \<Rightarrow> jsval \<Rightarrow> jsval \<Rightarrow> jsval" where
  "Math_max cv a b =
     (case (ToNumber cv a, ToNumber cv b) of
        (Some x, Some y) \<Rightarrow> JNum (max x y)
      | _ \<Rightarrow> JNaN)"

section \<open>The state of the hook\<close>

text \<open>
  \<^verbatim>\<open>useState\<close> holds \<^verbatim>\<open>user\<close> (\<^verbatim>\<open>null\<close> or the profile object with its \<^verbatim>\<open>mealLog\<close>),
  \<^verbatim>\<open>loading\<close> and \<^verbatim>\<open>error\<close> (\<^verbatim>\<open>null\<close> or the message of the last failure).
\<close>

record store =
  user :: "obj option"
  loading :: bool
  error :: "string option"

definition MAX_FREE_SCANS :: rat where
  "MAX_FREE_SCANS = 10"

section \<open>Derived entitlement values\<close>

text \<open>
  \<^verbatim>\<open>const remainingFreeScans = user ? Math.max(0, MAX_FREE_SCANS - (user.track_calories_usage || 0)) : 0;\<close>
\<close>

definition remainingFreeScans :: "coercions \<Rightarrow> store \<Rightarrow> jsval" where
  "remainingFreeScans cv st =
     (case user st of
        None \<Rightarrow> JNum 0
      | Some u \<Rightarrow>
          Math_max cv (JNum 0)
            (js_sub cv (JNum MAX_FREE_SCANS) (js_or (get u ''track_calories_usage'') (JNum 0))))"

text \<open>
  \<^verbatim>\<open>const canUseForFree = user ? !user.is_premium && (user.credits || 0) === 0 && remainingFreeScans > 0 : false;\<close>
  Strict equality with the literal 0 holds for the number 0 only.
\<close>

definition canUseForFree :: "coercions \<Rightarrow> store \<Rightarrow> bool" where
  "canUseForFree cv st =
     (case user st of
        None \<Rightarrow> False
      | Some u \<Rightarrow>
          \<not> truthy (get u ''is_premium'')
          \<and> js_or (get u ''credits'') (JNum 0) = JNum 0
          \<and> js_gt cv (remainingFreeScans cv st) 0)"

text \<open>
  \<^verbatim>\<open>const canUseWithCredits = user ? !user.is_premium && (user.credits || 0) > 0 : false;\<close>
\<close>

definition canUseWithCredits :: "coercions \<Rightarrow> store \<Rightarrow> bool" where
  "canUseWithCredits cv st =
     (case user st of
        None \<Rightarrow> False
      | Some u \<Rightarrow>
          \<not> truthy (get u ''is_premium'')
          \<and> js_gt cv (js_or (get u ''credits'') (JNum 0)) 0)"

text \<open>
  \<^verbatim>\<open>const canUseAsPremium = user ? user.is_premium : false;\<close>
  The flag is the stored value itself, not a boolean made from it.
\<close>

definition canUseAsPremium :: "store \<Rightarrow> jsval" where
  "canUseAsPremium st =
     (case user st of
        None \<Rightarrow> JBool False
      | Some u \<Rightarrow> get u ''is_premium'')"

section \<open>The data service\<close>

text \<open>
  Every query of the data service resolves to a pair \<^verbatim>\<open>{ data, error }\<close>. The service is
  an external collaborator: the model takes its four queries as functions from the
  request to that pair, and the clock (\<^verbatim>\<open>new Date().toISOString()\<close>) as a string.
\<close>

record pg_error =
  code :: string
  message :: string

record 'a response =
  data :: "'a option"
  err :: "pg_error option"

record services =
  profiles_select :: "jsval \<Rightarrow> obj response"
  meal_logs_select :: "jsval \<Rightarrow> jsval list response"
  profiles_update :: "jsval \<Rightarrow> obj \<Rightarrow> obj response"
  meal_logs_insert :: "obj \<Rightarrow> obj response"

text \<open>Object spread \<^verbatim>\<open>{ ...x }\<close> of an object or of \<^verbatim>\<open>null\<close>.\<close>

definition spread :: "obj option \<Rightarrow> obj" where
  "spread x = (case x of None \<Rightarrow> Map.empty | Some ob \<Rightarrow> ob)"

definition value_of :: "obj option \<Rightarrow> jsval" where
  "value_of x = (case x of None \<Rightarrow> JNull | Some ob \<Rightarrow> JObj ob)"

section \<open>Profile fetch\<close>

text \<open>
  The body of the \<^verbatim>\<open>try\<close> block of \<^verbatim>\<open>fetchUserProfile\<close>: \<open>Inl\<close> is the error thrown,
  \<open>Inr\<close> the argument of \<^verbatim>\<open>setUser\<close>.
\<close>

definition fetch_body :: "services \<Rightarrow> jsval \<Rightarrow> pg_error + obj option" where
  "fetch_body svc userId =
     (let r = profiles_select svc userId;
          rest =
            (case data r of
               Some profile \<Rightarrow>
                 (let m = meal_logs_select svc userId in
                  case err m of
                    Some e \<Rightarrow> Inl e
                  | None \<Rightarrow>
                      Inr (Some (profile(''mealLog'' \<mapsto>
                             JArr (case data m of None \<Rightarrow> [] | Some mealLog \<Rightarrow> mealLog)))))
             | None \<Rightarrow> Inr None)
      in case err r of
           Some e \<Rightarrow> if code e \<noteq> ''PGRST116'' then Inl e else rest
         | None \<Rightarrow> rest)"

text \<open>
  \<^verbatim>\<open>fetchUserProfile\<close> changes the state twice: before the first \<^verbatim>\<open>await\<close> it sets
  \<^verbatim>\<open>loading\<close> and clears \<^verbatim>\<open>error\<close>, and that state is what the components see while the
  queries are pending; the \<^verbatim>\<open>try\<close>, \<^verbatim>\<open>catch\<close> and \<^verbatim>\<open>finally\<close> blocks then settle it.
  The operation returns both states: the pending one and the settled one.
\<close>

definition fetchUserProfile :: "services \<Rightarrow> jsval \<Rightarrow> store \<Rightarrow> store \<times> store" where
  "fetchUserProfile svc userId st =
     (let pending = st\<lparr>loading := True, error := None\<rparr>;
          settled = (case fetch_body svc userId of
                       Inr u \<Rightarrow> pending\<lparr>user := u\<rparr>
                     | Inl e \<Rightarrow> pending\<lparr>error := Some (message e), user := None\<rparr>)
      in (pending, settled\<lparr>loading := False\<rparr>))"

section \<open>Profile update and the entitlement operations\<close>

text \<open>
  \<^verbatim>\<open>updateProfile\<close> returns the new state and its result (\<open>None\<close> is \<^verbatim>\<open>null\<close>). The
  updater \<^verbatim>\<open>prevUser => ({ ...prevUser, ...data })\<close> runs on the state of the call.
\<close>

definition updateProfile :: "services \<Rightarrow> string \<Rightarrow> store \<Rightarrow> jsval \<Rightarrow> obj \<Rightarrow> store \<times> obj option" where
  "updateProfile svc now st userId updates =
     (let r = profiles_update svc userId (updates(''updated_at'' \<mapsto> JStr now)) in
      case err r of
        Some e \<Rightarrow> (st\<lparr>error := Some (message e)\<rparr>, None)
      | None \<Rightarrow> (st\<lparr>user := Some (spread (user st) ++ spread (data r))\<rparr>, data r))"

definition incrementTrackCaloriesUsage :: "coercions \<Rightarrow> services \<Rightarrow> string \<Rightarrow> store \<Rightarrow> store" where
  "incrementTrackCaloriesUsage cv svc now st =
     (case user st of
        None \<Rightarrow> st
      | Some u \<Rightarrow>
          if truthy (get u ''is_premium'') \<or> js_gt cv (get u ''credits'') 0 then st
          else if js_lt cv (get u ''track_calories_usage'') MAX_FREE_SCANS
          then fst (updateProfile svc now st (get u ''id'')
                 [''track_calories_usage'' \<mapsto> js_add cv (get u ''track_calories_usage'') (JNum 1)])
          else st)"

definition addCredits :: "coercions \<Rightarrow> services \<Rightarrow> string \<Rightarrow> store \<Rightarrow> jsval \<Rightarrow> store" where
  "addCredits cv svc now st amount =
     (case user st of
        None \<Rightarrow> st
      | Some u \<Rightarrow>
          fst (updateProfile svc now st (get u ''id'')
            [''credits'' \<mapsto> js_add cv (js_or (get u ''credits'') (JNum 0)) amount]))"

definition useCreditForScan :: "coercions \<Rightarrow> services \<Rightarrow> string \<Rightarrow> store \<Rightarrow> store \<times> bool" where
  "useCreditForScan cv svc now st =
     (case user st of
        None \<Rightarrow> (st, False)
      | Some u \<Rightarrow>
          if js_le cv (get u ''credits'') 0 then (st, False)
          else (fst (updateProfile svc now st (get u ''id'')
                  [''credits'' \<mapsto> js_sub cv (get u ''credits'') (JNum 1)]), True))"

definition setPremium :: "services \<Rightarrow> string \<Rightarrow> store \<Rightarrow> jsval \<Rightarrow> store" where
  "setPremium svc now st isPremiumStatus =
     (case user st of
        None \<Rightarrow> st
      | Some u \<Rightarrow>
          fst (updateProfile svc now st (get u ''id'') [''is_premium'' \<mapsto> isPremiumStatus]))"

section \<open>Meal log\<close>

text \<open>
  Array spread \<^verbatim>\<open>[...x]\<close> iterates an array or the characters of a string; any other
  value is not iterable and the spread throws a \<^verbatim>\<open>TypeError\<close>.
\<close>

datatype js_error = TypeError

fun iterate :: "jsval \<Rightarrow> js_error + jsval list" where
  "iterate (JArr xs) = Inr xs"
| "iterate (JStr s) = Inr (map (\<lambda>c. JStr [c]) s)"
| "iterate v = Inl TypeError"

text \<open>
  The updater
  \<^verbatim>\<open>prevUser => ({ ...prevUser, mealLog: [data, ...(prevUser.mealLog || [])] })\<close>.
  It runs outside the \<^verbatim>\<open>try\<close> block of \<^verbatim>\<open>addMealToLog\<close>, so what it throws is not
  caught there.
\<close>

definition mealLog_updater :: "jsval \<Rightarrow> obj option \<Rightarrow> js_error + obj" where
  "mealLog_updater d prevUser =
     (case prevUser of
        None \<Rightarrow> Inl TypeError
      | Some p \<Rightarrow>
          (case iterate (js_or (get p ''mealLog'') (JArr [])) of
             Inl e \<Rightarrow> Inl e
           | Inr xs \<Rightarrow> Inr (p(''mealLog'' \<mapsto> JArr (d # xs)))))"

text \<open>The record sent to the service: \<^verbatim>\<open>{ ...mealItem, user_id, scanned_at }\<close> without \<^verbatim>\<open>id\<close>.\<close>

definition mealToAdd :: "obj \<Rightarrow> obj \<Rightarrow> string \<Rightarrow> obj" where
  "mealToAdd mealItem u now =
     (mealItem(''user_id'' \<mapsto> get u ''id'', ''scanned_at'' \<mapsto> JStr now))(''id'' := None)"

text \<open>
  \<^verbatim>\<open>addMealToLog\<close> returns \<^verbatim>\<open>undefined\<close> without a user, \<^verbatim>\<open>null\<close> on failure and the
  inserted record on success.
\<close>

definition addMealToLog :: "services \<Rightarrow> string \<Rightarrow> store \<Rightarrow> obj \<Rightarrow> js_error + store \<times> jsval" where
  "addMealToLog svc now st mealItem =
     (case user st of
        None \<Rightarrow> Inr (st, JUndefined)
      | Some u \<Rightarrow>
          (let r = meal_logs_insert svc (mealToAdd mealItem u now) in
           case err r of
             Some e \<Rightarrow> Inr (st\<lparr>error := Some (message e)\<rparr>, JNull)
           | None \<Rightarrow>
               (case mealLog_updater (value_of (data r)) (user st) of
                  Inl e \<Rightarrow> Inl e
                | Inr u' \<Rightarrow> Inr (st\<lparr>user := Some u'\<rparr>, value_of (data r)))))"

section \<open>The operations as a transition system\<close>

text \<open>
  The hook hands its operations to the components that use it. One call of one of them,
  run to completion, is a step of the store; a step that ends in an uncaught exception
  has no next state.
\<close>

datatype operation =
    FetchUserProfile jsval
  | IncrementTrackCaloriesUsage
  | AddCredits jsval
  | UseCreditForScan
  | SetPremium jsval
  | AddMealToLog obj

fun step :: "coercions \<Rightarrow> services \<Rightarrow> string \<Rightarrow> store \<Rightarrow> operation \<Rightarrow> js_error + store" where
  "step cv svc now st (FetchUserProfile userId) = Inr (snd (fetchUserProfile svc userId st))"
| "step cv svc now st IncrementTrackCaloriesUsage = Inr (incrementTrackCaloriesUsage cv svc now st)"
| "step cv svc now st (AddCredits amount) = Inr (addCredits cv svc now st amount)"
| "step cv svc now st UseCreditForScan = Inr (fst (useCreditForScan cv svc now st))"
| "step cv svc now st (SetPremium isPremiumStatus) = Inr (setPremium svc now st isPremiumStatus)"
| "step cv svc now st (AddMealToLog mealItem) =
     (case addMealToLog svc now st mealItem of
        Inl e \<Rightarrow> Inl e
      | Inr (st', result) \<Rightarrow> Inr st')"

text \<open>
  The invariant of the data model: \<^verbatim>\<open>credits\<close> and \<^verbatim>\<open>track_calories_usage\<close> of the
  current user are integers that are not negative.
\<close>

definition non_negative :: "jsval \<Rightarrow> bool" where
  "non_negative v = (case v of JNum n \<Rightarrow> n \<in> \<int> \<and> 0 \<le> n | _ \<Rightarrow> False)"

definition counters_ok :: "obj \<Rightarrow> bool" where
  "counters_ok u = (non_negative (get u ''credits'') \<and> non_negative (get u ''track_calories_usage''))"

definition counters_never_negative :: "store \<Rightarrow> bool" where
  "counters_never_negative st = (case user st of None \<Rightarrow> True | Some u \<Rightarrow> counters_ok u)"

text \<open>
  What the invariant asks of the data service: a profile it delivers has counters that
  are integers and not negative, and the record it returns after an update carries each
  counter as it was written (a counter that was not written is absent from the record,
  or an integer that is not negative).
\<close>

definition written_back :: "obj \<Rightarrow> obj \<Rightarrow> string \<Rightarrow> bool" where
  "written_back p d k =
     (case p k of
        Some w \<Rightarrow> d k = Some w
      | None \<Rightarrow> (case d k of None \<Rightarrow> True | Some v \<Rightarrow> non_negative v))"

definition service_keeps_counters :: "services \<Rightarrow> bool" where
  "service_keeps_counters svc =
     ((\<forall>uid d. data (profiles_select svc uid) = Some d \<longrightarrow> counters_ok d)
      \<and> (\<forall>uid p d. err (profiles_update svc uid p) = None \<and> data (profiles_update svc uid p) = Some d \<longrightarrow>
            written_back p d ''credits'' \<and> written_back p d ''track_calories_usage''))"

text \<open>
  The amounts that keep \<^verbatim>\<open>credits\<close> an integer that is not negative: an integer \<open>a\<close>
  with \<open>0 \<le> credits + a\<close>.
\<close>

definition amount_covered :: "store \<Rightarrow> jsval \<Rightarrow> bool" where
  "amount_covered st amount =
     (case user st of
        None \<Rightarrow> True
      | Some u \<Rightarrow>
          (case (get u ''credits'', amount) of
             (JNum c, JNum a) \<Rightarrow> a \<in> \<int> \<and> 0 \<le> c + a
           | _ \<Rightarrow> False))"

section \<open>Example stores and services\<close>

text \<open>
  A runtime whose string conversions are never consulted by the examples; the profile of
  user \<^verbatim>\<open>u1\<close> with given \<^verbatim>\<open>is_premium\<close>, \<^verbatim>\<open>credits\<close> and \<^verbatim>\<open>track_calories_usage\<close>, and
  one without the counter; a service that answers the two select queries as told, returns
  an update as it was written and an inserted meal with the id 1; a service that fails
  every query.
\<close>

definition no_conversion :: coercions where
  "no_conversion = \<lparr>StringToNumber = (\<lambda>s. None), ToString = (\<lambda>v. [])\<rparr>"

definition profile_ex :: "bool \<Rightarrow> rat \<Rightarrow> rat \<Rightarrow> obj" where
  "profile_ex p c t =
     [''id'' \<mapsto> JStr ''u1'', ''is_premium'' \<mapsto> JBool p, ''credits'' \<mapsto> JNum c,
      ''track_calories_usage'' \<mapsto> JNum t, ''mealLog'' \<mapsto> JArr []]"

definition store_ex :: "bool \<Rightarrow> rat \<Rightarrow> rat \<Rightarrow> store" where
  "store_ex p c t = \<lparr>user = Some (profile_ex p c t), loading = False, error = None\<rparr>"

definition profile_no_counter :: obj where
  "profile_no_counter =
     [''id'' \<mapsto> JStr ''u1'', ''is_premium'' \<mapsto> JBool False, ''credits'' \<mapsto> JNum 0,
      ''mealLog'' \<mapsto> JArr []]"

definition store_no_counter :: store where
  "store_no_counter = \<lparr>user = Some profile_no_counter, loading = False, error = None\<rparr>"

definition store_with_error :: store where
  "store_with_error = \<lparr>user = Some (profile_ex False 2 0), loading = False, error = Some ''earlier''\<rparr>"

definition no_rows :: pg_error where
  "no_rows = \<lparr>code = ''PGRST116'', message = ''no rows''\<rparr>"

definition down :: pg_error where
  "down = \<lparr>code = ''500'', message = ''down''\<rparr>"

definition answering :: "obj response \<Rightarrow> jsval list response \<Rightarrow> services" where
  "answering profile mealLog =
     \<lparr>profiles_select = (\<lambda>uid. profile),
      meal_logs_select = (\<lambda>uid. mealLog),
      profiles_update = (\<lambda>uid p. \<lparr>data = Some p, err = None\<rparr>),
      meal_logs_insert = (\<lambda>e. \<lparr>data = Some (e(''id'' \<mapsto> JNum 1)), err = None\<rparr>)\<rparr>"

definition echo_service :: services where
  "echo_service =
     answering \<lparr>data = Some (profile_ex False 0 0), err = None\<rparr> \<lparr>data = Some [], err = None\<rparr>"

definition failing_service :: services where
  "failing_service =
     \<lparr>profiles_select = (\<lambda>uid. \<lparr>data = None, err = Some down\<rparr>),
      meal_logs_select = (\<lambda>uid. \<lparr>data = None, err = Some down\<rparr>),
      profiles_update = (\<lambda>uid p. \<lparr>data = None, err = Some down\<rparr>),
      meal_logs_insert = (\<lambda>e. \<lparr>data = None, err = Some down\<rparr>)\<rparr>"

definition apple :: obj where
  "apple = [''name'' \<mapsto> JStr ''Apple'', ''calories'' \<mapsto> JNum 95]"

lemmas ex_defs = no_conversion_def profile_ex_def store_ex_def echo_service_def answering_def
  failing_service_def down_def no_rows_def

section \<open>Reading a merged record\<close>

lemma get_map_add:
  "get (u ++ d) k = (case d k of None \<Rightarrow> get u k | Some v \<Rightarrow> v)"
  by (simp add: get_def map_add_def split: option.splits)

lemma get_written: "get d k = JNum n \<Longrightarrow> get (u ++ d) k = JNum n"
  by (auto simp: get_def map_add_def split: option.splits)

section \<open>Entitlement flags\<close>

text \<open>
  Claim C1. In every state at most one of \<^verbatim>\<open>canUseForFree\<close>, \<^verbatim>\<open>canUseWithCredits\<close> and
  \<^verbatim>\<open>canUseAsPremium\<close> holds, whatever the values of \<^verbatim>\<open>is_premium\<close>, \<^verbatim>\<open>credits\<close> and
  \<^verbatim>\<open>track_calories_usage\<close>; and when \<^verbatim>\<open>is_premium\<close> is \<^verbatim>\<open>true\<close>, \<^verbatim>\<open>canUseAsPremium\<close>
  is \<^verbatim>\<open>true\<close> and the other two flags are false.
\<close>

theorem entitlement_flags_exclusive:
  "\<not> (canUseForFree cv st \<and> canUseWithCredits cv st)
   \<and> \<not> (canUseForFree cv st \<and> truthy (canUseAsPremium st))
   \<and> \<not> (canUseWithCredits cv st \<and> truthy (canUseAsPremium st))
   \<and> (user st = Some u \<and> get u ''is_premium'' = JBool True \<longrightarrow>
         canUseAsPremium st = JBool True \<and> \<not> canUseForFree cv st \<and> \<not> canUseWithCredits cv st)"
  by (auto simp: canUseForFree_def canUseWithCredits_def canUseAsPremium_def js_gt_def
           split: option.splits)

text \<open>A premium user with three credits and two scans used.\<close>

theorem entitlement_flags_exclusive_witness:
  "user (store_ex True 3 2) = Some (profile_ex True 3 2)
   \<and> get (profile_ex True 3 2) ''is_premium'' = JBool True
   \<and> canUseAsPremium (store_ex True 3 2) = JBool True
   \<and> \<not> canUseForFree no_conversion (store_ex True 3 2)
   \<and> \<not> canUseWithCredits no_conversion (store_ex True 3 2)"
proof -
  have h: "user (store_ex True 3 2) = Some (profile_ex True 3 2)"
    "get (profile_ex True 3 2) ''is_premium'' = JBool True"
    by (simp_all add: store_ex_def profile_ex_def get_def)
  with entitlement_flags_exclusive [where st = "store_ex True 3 2" and u = "profile_ex True 3 2"
      and cv = no_conversion]
  show ?thesis by blast
qed

section \<open>The free-scan counter\<close>

lemma increment_skip:
  "user st = Some u \<Longrightarrow> truthy (get u ''is_premium'') \<or> js_gt cv (get u ''credits'') 0 \<Longrightarrow>
   incrementTrackCaloriesUsage cv svc now st = st"
  by (auto simp: incrementTrackCaloriesUsage_def)

lemma increment_below:
  "user st = Some u \<Longrightarrow> \<not> truthy (get u ''is_premium'') \<Longrightarrow> \<not> js_gt cv (get u ''credits'') 0 \<Longrightarrow>
   get u ''track_calories_usage'' = JNum t \<Longrightarrow> t < MAX_FREE_SCANS \<Longrightarrow>
   incrementTrackCaloriesUsage cv svc now st =
     fst (updateProfile svc now st (get u ''id'') [''track_calories_usage'' \<mapsto> JNum (t + 1)])"
  by (simp add: incrementTrackCaloriesUsage_def js_lt_def js_add_def)

lemma increment_cap:
  "user st = Some u \<Longrightarrow> \<not> truthy (get u ''is_premium'') \<Longrightarrow> \<not> js_gt cv (get u ''credits'') 0 \<Longrightarrow>
   get u ''track_calories_usage'' = JNum t \<Longrightarrow> MAX_FREE_SCANS \<le> t \<Longrightarrow>
   incrementTrackCaloriesUsage cv svc now st = st"
  by (simp add: incrementTrackCaloriesUsage_def js_lt_def)

lemma increment_success:
  assumes "user st = Some u" "\<not> truthy (get u ''is_premium'')" "\<not> js_gt cv (get u ''credits'') 0"
    and "get u ''track_calories_usage'' = JNum t" "t < MAX_FREE_SCANS"
    and "profiles_update svc (get u ''id'')
           [''track_calories_usage'' \<mapsto> JNum (t + 1), ''updated_at'' \<mapsto> JStr now]
         = \<lparr>data = Some d, err = None\<rparr>"
  shows "incrementTrackCaloriesUsage cv svc now st = st\<lparr>user := Some (u ++ d)\<rparr>"
  using assms by (simp add: increment_below updateProfile_def spread_def)

text \<open>
  Claim C3. \<^verbatim>\<open>incrementTrackCaloriesUsage\<close> leaves the store as it is when \<^verbatim>\<open>is_premium\<close>
  is \<^verbatim>\<open>true\<close> or \<^verbatim>\<open>credits > 0\<close>. Otherwise, with \<^verbatim>\<open>track_calories_usage = t\<close>: below
  \<^verbatim>\<open>MAX_FREE_SCANS\<close> it is exactly one profile update writing \<open>t + 1\<close>, and once the
  service has returned that record the counter of the store is \<open>t + 1\<close>; at the cap
  nothing changes. When the call reached the cap, a second call changes nothing: from 9
  the first call yields 10 and the second leaves 10.
\<close>

theorem incrementTrackCaloriesUsage_spec:
  assumes "user st = Some u"
  shows
  "(get u ''is_premium'' = JBool True \<or> (\<exists>c. get u ''credits'' = JNum c \<and> 0 < c) \<longrightarrow>
      incrementTrackCaloriesUsage cv svc now st = st)
   \<and> (\<not> truthy (get u ''is_premium'') \<and> \<not> js_gt cv (get u ''credits'') 0
        \<and> get u ''track_calories_usage'' = JNum t \<longrightarrow>
        (t < MAX_FREE_SCANS \<longrightarrow>
           incrementTrackCaloriesUsage cv svc now st =
             fst (updateProfile svc now st (get u ''id'') [''track_calories_usage'' \<mapsto> JNum (t + 1)]))
        \<and> (t < MAX_FREE_SCANS
             \<and> profiles_update svc (get u ''id'')
                 [''track_calories_usage'' \<mapsto> JNum (t + 1), ''updated_at'' \<mapsto> JStr now]
               = \<lparr>data = Some d, err = None\<rparr>
             \<and> get d ''track_calories_usage'' = JNum (t + 1) \<longrightarrow>
           get (spread (user (incrementTrackCaloriesUsage cv svc now st))) ''track_calories_usage''
             = JNum (t + 1))
        \<and> (t + 1 = MAX_FREE_SCANS
             \<and> profiles_update svc (get u ''id'')
                 [''track_calories_usage'' \<mapsto> JNum (t + 1), ''updated_at'' \<mapsto> JStr now]
               = \<lparr>data = Some d, err = None\<rparr>
             \<and> get d ''track_calories_usage'' = JNum (t + 1)
             \<and> get (u ++ d) ''is_premium'' = get u ''is_premium''
             \<and> get (u ++ d) ''credits'' = get u ''credits'' \<longrightarrow>
           incrementTrackCaloriesUsage cv svc' now' (incrementTrackCaloriesUsage cv svc now st)
             = incrementTrackCaloriesUsage cv svc now st)
        \<and> (MAX_FREE_SCANS \<le> t \<longrightarrow> incrementTrackCaloriesUsage cv svc now st = st))"
proof (intro conjI impI)
  assume "get u ''is_premium'' = JBool True \<or> (\<exists>c. get u ''credits'' = JNum c \<and> 0 < c)"
  then have "truthy (get u ''is_premium'') \<or> js_gt cv (get u ''credits'') 0"
    by (auto simp: js_gt_def)
  with assms show "incrementTrackCaloriesUsage cv svc now st = st"
    by (rule increment_skip)
next
  assume a: "\<not> truthy (get u ''is_premium'') \<and> \<not> js_gt cv (get u ''credits'') 0
        \<and> get u ''track_calories_usage'' = JNum t" and lt: "t < MAX_FREE_SCANS"
  from a have np: "\<not> truthy (get u ''is_premium'')" and nc: "\<not> js_gt cv (get u ''credits'') 0"
    and tr: "get u ''track_calories_usage'' = JNum t" by blast+
  show "incrementTrackCaloriesUsage cv svc now st =
             fst (updateProfile svc now st (get u ''id'') [''track_calories_usage'' \<mapsto> JNum (t + 1)])"
    by (rule increment_below [OF assms np nc tr lt])
next
  assume a: "\<not> truthy (get u ''is_premium'') \<and> \<not> js_gt cv (get u ''credits'') 0
        \<and> get u ''track_calories_usage'' = JNum t"
    and b: "t < MAX_FREE_SCANS
             \<and> profiles_update svc (get u ''id'')
                 [''track_calories_usage'' \<mapsto> JNum (t + 1), ''updated_at'' \<mapsto> JStr now]
               = \<lparr>data = Some d, err = None\<rparr>
             \<and> get d ''track_calories_usage'' = JNum (t + 1)"
  from a have np: "\<not> truthy (get u ''is_premium'')" and nc: "\<not> js_gt cv (get u ''credits'') 0"
    and tr: "get u ''track_calories_usage'' = JNum t" by blast+
  from b have lt: "t < MAX_FREE_SCANS"
    and r: "profiles_update svc (get u ''id'')
                 [''track_calories_usage'' \<mapsto> JNum (t + 1), ''updated_at'' \<mapsto> JStr now]
               = \<lparr>data = Some d, err = None\<rparr>"
    and dt: "get d ''track_calories_usage'' = JNum (t + 1)" by blast+
  have "incrementTrackCaloriesUsage cv svc now st = st\<lparr>user := Some (u ++ d)\<rparr>"
    by (rule increment_success [OF assms np nc tr lt r])
  then show "get (spread (user (incrementTrackCaloriesUsage cv svc now st))) ''track_calories_usage''
             = JNum (t + 1)"
    using dt by (simp add: spread_def get_written)
next
  assume a: "\<not> truthy (get u ''is_premium'') \<and> \<not> js_gt cv (get u ''credits'') 0
        \<and> get u ''track_calories_usage'' = JNum t"
    and b: "t + 1 = MAX_FREE_SCANS
             \<and> profiles_update svc (get u ''id'')
                 [''track_calories_usage'' \<mapsto> JNum (t + 1), ''updated_at'' \<mapsto> JStr now]
               = \<lparr>data = Some d, err = None\<rparr>
             \<and> get d ''track_calories_usage'' = JNum (t + 1)
             \<and> get (u ++ d) ''is_premium'' = get u ''is_premium''
             \<and> get (u ++ d) ''credits'' = get u ''credits''"
  from a have np: "\<not> truthy (get u ''is_premium'')" and nc: "\<not> js_gt cv (get u ''credits'') 0"
    and tr: "get u ''track_calories_usage'' = JNum t" by blast+
  from b have eq: "t + 1 = MAX_FREE_SCANS"
    and r: "profiles_update svc (get u ''id'')
                 [''track_calories_usage'' \<mapsto> JNum (t + 1), ''updated_at'' \<mapsto> JStr now]
               = \<lparr>data = Some d, err = None\<rparr>"
    and dt: "get d ''track_calories_usage'' = JNum (t + 1)"
    and pp: "get (u ++ d) ''is_premium'' = get u ''is_premium''"
    and cc: "get (u ++ d) ''credits'' = get u ''credits''" by blast+
  have lt: "t < MAX_FREE_SCANS" using eq by simp
  have st1: "incrementTrackCaloriesUsage cv svc now st = st\<lparr>user := Some (u ++ d)\<rparr>"
    by (rule increment_success [OF assms np nc tr lt r])
  have g: "get (u ++ d) ''track_calories_usage'' = JNum (t + 1)"
    using dt by (rule get_written)
  have u1: "user (st\<lparr>user := Some (u ++ d)\<rparr>) = Some (u ++ d)" by simp
  have le: "MAX_FREE_SCANS \<le> t + 1" using eq by simp
  have "incrementTrackCaloriesUsage cv svc' now' (st\<lparr>user := Some (u ++ d)\<rparr>) = st\<lparr>user := Some (u ++ d)\<rparr>"
    using np nc by (intro increment_cap [OF u1 _ _ g le]) (simp_all add: pp cc)
  then show "incrementTrackCaloriesUsage cv svc' now' (incrementTrackCaloriesUsage cv svc now st)
             = incrementTrackCaloriesUsage cv svc now st"
    by (simp add: st1)
next
  assume a: "\<not> truthy (get u ''is_premium'') \<and> \<not> js_gt cv (get u ''credits'') 0
        \<and> get u ''track_calories_usage'' = JNum t" and le: "MAX_FREE_SCANS \<le> t"
  from a have np: "\<not> truthy (get u ''is_premium'')" and nc: "\<not> js_gt cv (get u ''credits'') 0"
    and tr: "get u ''track_calories_usage'' = JNum t" by blast+
  show "incrementTrackCaloriesUsage cv svc now st = st"
    by (rule increment_cap [OF assms np nc tr le])
qed

text \<open>From 9 to 10, and 10 again.\<close>

theorem incrementTrackCaloriesUsage_spec_witness:
  "user (store_ex False 0 9) = Some (profile_ex False 0 9)
   \<and> \<not> truthy (get (profile_ex False 0 9) ''is_premium'')
   \<and> \<not> js_gt no_conversion (get (profile_ex False 0 9) ''credits'') 0
   \<and> get (profile_ex False 0 9) ''track_calories_usage'' = JNum 9
   \<and> 9 + 1 = MAX_FREE_SCANS
   \<and> get (spread (user (incrementTrackCaloriesUsage no_conversion echo_service ''t1'' (store_ex False 0 9))))
        ''track_calories_usage'' = JNum 10
   \<and> incrementTrackCaloriesUsage no_conversion echo_service ''t2''
        (incrementTrackCaloriesUsage no_conversion echo_service ''t1'' (store_ex False 0 9))
       = incrementTrackCaloriesUsage no_conversion echo_service ''t1'' (store_ex False 0 9)"
proof -
  let ?u = "profile_ex False 0 9"
  let ?d = "[''track_calories_usage'' \<mapsto> JNum (9 + 1), ''updated_at'' \<mapsto> JStr ''t1'']"
  have h0: "user (store_ex False 0 9) = Some ?u"
    by (simp add: store_ex_def)
  have h1: "\<not> truthy (get ?u ''is_premium'')"
    by (simp add: profile_ex_def get_def)
  have h2: "\<not> js_gt no_conversion (get ?u ''credits'') 0"
    by (simp add: profile_ex_def get_def js_gt_def)
  have h3: "get ?u ''track_calories_usage'' = JNum 9"
    by (simp add: profile_ex_def get_def)
  have h4: "9 + 1 = MAX_FREE_SCANS" "9 < MAX_FREE_SCANS"
    by (simp_all add: MAX_FREE_SCANS_def)
  have h5: "profiles_update echo_service (get ?u ''id'')
              [''track_calories_usage'' \<mapsto> JNum (9 + 1), ''updated_at'' \<mapsto> JStr ''t1'']
            = \<lparr>data = Some ?d, err = None\<rparr>"
    by (simp add: echo_service_def answering_def)
  have h6: "get ?d ''track_calories_usage'' = JNum (9 + 1)"
    by (simp add: get_def)
  have h7: "get (?u ++ ?d) ''is_premium'' = get ?u ''is_premium''"
    "get (?u ++ ?d) ''credits'' = get ?u ''credits''"
    by (simp_all add: get_def)
  note T = incrementTrackCaloriesUsage_spec [OF h0, where cv = no_conversion and t = 9
     and svc = echo_service and now = "''t1''" and d = ?d and svc' = echo_service and now' = "''t2''"]
  from T h1 h2 h3 h4 h5 h6 h7
  have "get (spread (user (incrementTrackCaloriesUsage no_conversion echo_service ''t1'' (store_ex False 0 9))))
        ''track_calories_usage'' = JNum (9 + 1)"
    and "incrementTrackCaloriesUsage no_conversion echo_service ''t2''
        (incrementTrackCaloriesUsage no_conversion echo_service ''t1'' (store_ex False 0 9))
       = incrementTrackCaloriesUsage no_conversion echo_service ''t1'' (store_ex False 0 9)"
    by blast+
  with h0 h1 h2 h3 h4 show ?thesis by simp
qed

section \<open>Spending a credit\<close>

text \<open>
  Claim C4. \<^verbatim>\<open>useCreditForScan\<close> returns \<^verbatim>\<open>false\<close> and leaves the store as it is when
  there is no user or \<^verbatim>\<open>credits <= 0\<close>. With \<^verbatim>\<open>credits = c > 0\<close> it returns \<^verbatim>\<open>true\<close> and is
  exactly one profile update writing \<open>c - 1\<close>; once the service has returned that record
  the credits of the store are \<open>c - 1\<close>.
\<close>

theorem useCreditForScan_spec:
  "(user st = None \<longrightarrow> useCreditForScan cv svc now st = (st, False))
   \<and> (user st = Some u \<and> get u ''credits'' = JNum c \<longrightarrow>
        (c \<le> 0 \<longrightarrow> useCreditForScan cv svc now st = (st, False))
        \<and> (0 < c \<longrightarrow>
             useCreditForScan cv svc now st =
               (fst (updateProfile svc now st (get u ''id'') [''credits'' \<mapsto> JNum (c - 1)]), True))
        \<and> (0 < c
             \<and> profiles_update svc (get u ''id'') [''credits'' \<mapsto> JNum (c - 1), ''updated_at'' \<mapsto> JStr now]
               = \<lparr>data = Some d, err = None\<rparr>
             \<and> get d ''credits'' = JNum (c - 1) \<longrightarrow>
             snd (useCreditForScan cv svc now st) = True
             \<and> get (spread (user (fst (useCreditForScan cv svc now st)))) ''credits'' = JNum (c - 1)))"
  by (auto simp: useCreditForScan_def js_le_def js_sub_def updateProfile_def spread_def get_written)

text \<open>With no credits: \<^verbatim>\<open>false\<close>, nothing changed. With two credits: \<^verbatim>\<open>true\<close>, one credit left.\<close>

theorem useCreditForScan_spec_witness:
  "user (store_ex False 0 0) = Some (profile_ex False 0 0)
   \<and> get (profile_ex False 0 0) ''credits'' = JNum 0
   \<and> useCreditForScan no_conversion echo_service ''t1'' (store_ex False 0 0) = (store_ex False 0 0, False)
   \<and> user (store_ex False 2 0) = Some (profile_ex False 2 0)
   \<and> get (profile_ex False 2 0) ''credits'' = JNum 2
   \<and> snd (useCreditForScan no_conversion echo_service ''t1'' (store_ex False 2 0)) = True
   \<and> get (spread (user (fst (useCreditForScan no_conversion echo_service ''t1'' (store_ex False 2 0)))))
        ''credits'' = JNum 1"
proof -
  let ?d = "[''credits'' \<mapsto> JNum (2 - 1), ''updated_at'' \<mapsto> JStr ''t1'']"
  have h0: "user (store_ex False 0 0) = Some (profile_ex False 0 0)"
    "get (profile_ex False 0 0) ''credits'' = JNum 0"
    by (simp_all add: store_ex_def profile_ex_def get_def)
  have h2: "user (store_ex False 2 0) = Some (profile_ex False 2 0)"
    "get (profile_ex False 2 0) ''credits'' = JNum 2"
    by (simp_all add: store_ex_def profile_ex_def get_def)
  have r: "profiles_update echo_service (get (profile_ex False 2 0) ''id'')
             [''credits'' \<mapsto> JNum (2 - 1), ''updated_at'' \<mapsto> JStr ''t1'']
           = \<lparr>data = Some ?d, err = None\<rparr>"
    "get ?d ''credits'' = JNum (2 - 1)"
    by (simp_all add: echo_service_def answering_def get_def)
  have z: "(0::rat) \<le> 0" "(0::rat) < 2" by simp_all
  from h0 z useCreditForScan_spec [where st = "store_ex False 0 0" and u = "profile_ex False 0 0"
      and c = 0 and cv = no_conversion and svc = echo_service and now = "''t1''"]
  have a: "useCreditForScan no_conversion echo_service ''t1'' (store_ex False 0 0) = (store_ex False 0 0, False)"
    by blast
  from h2 r z useCreditForScan_spec [where st = "store_ex False 2 0" and u = "profile_ex False 2 0"
      and c = 2 and cv = no_conversion and svc = echo_service and now = "''t1''" and d = ?d]
  have b: "snd (useCreditForScan no_conversion echo_service ''t1'' (store_ex False 2 0)) = True
     \<and> get (spread (user (fst (useCreditForScan no_conversion echo_service ''t1'' (store_ex False 2 0)))))
        ''credits'' = JNum (2 - 1)"
    by blast
  from h0 h2 a b show ?thesis by simp
qed

text \<open>
  Claim C5. With \<^verbatim>\<open>credits > 0\<close>, \<^verbatim>\<open>useCreditForScan\<close> returns \<^verbatim>\<open>true\<close> also when the
  profile update fails: the user, and so the stored credits, is unchanged, \<^verbatim>\<open>error\<close> is
  the message of the failure, and the caller is told \<^verbatim>\<open>true\<close>.
\<close>

theorem useCreditForScan_reports_success_on_failure:
  "user st = Some u \<and> get u ''credits'' = JNum c \<and> 0 < c
   \<and> err (profiles_update svc (get u ''id'') [''credits'' \<mapsto> JNum (c - 1), ''updated_at'' \<mapsto> JStr now]) = Some e
   \<longrightarrow> useCreditForScan cv svc now st = (st\<lparr>error := Some (message e)\<rparr>, True)"
  by (auto simp: useCreditForScan_def js_le_def js_sub_def updateProfile_def)

text \<open>Two credits and a service that is down.\<close>

theorem useCreditForScan_reports_success_on_failure_witness:
  "user (store_ex False 2 0) = Some (profile_ex False 2 0)
   \<and> get (profile_ex False 2 0) ''credits'' = JNum 2
   \<and> err (profiles_update failing_service (get (profile_ex False 2 0) ''id'')
        [''credits'' \<mapsto> JNum (2 - 1), ''updated_at'' \<mapsto> JStr ''t1'']) = Some down
   \<and> useCreditForScan no_conversion failing_service ''t1'' (store_ex False 2 0)
       = ((store_ex False 2 0)\<lparr>error := Some ''down''\<rparr>, True)"
proof -
  have h: "user (store_ex False 2 0) = Some (profile_ex False 2 0)"
    "get (profile_ex False 2 0) ''credits'' = JNum 2"
    "err (profiles_update failing_service (get (profile_ex False 2 0) ''id'')
        [''credits'' \<mapsto> JNum (2 - 1), ''updated_at'' \<mapsto> JStr ''t1'']) = Some down"
    by (simp_all add: store_ex_def profile_ex_def get_def failing_service_def)
  with useCreditForScan_reports_success_on_failure [where st = "store_ex False 2 0"
      and u = "profile_ex False 2 0" and c = 2 and svc = failing_service and now = "''t1''"
      and e = down and cv = no_conversion]
  show ?thesis by (simp add: down_def)
qed

section \<open>Remaining free scans\<close>

text \<open>
  Claim C9. \<^verbatim>\<open>remainingFreeScans\<close> is 0 without a user and
  \<open>max 0 (MAX_FREE_SCANS - track_calories_usage)\<close> for the current user; so a user who is
  not premium, has no credits and has used \<^verbatim>\<open>MAX_FREE_SCANS\<close> scans or more has
  \<^verbatim>\<open>remainingFreeScans = 0\<close> and \<^verbatim>\<open>canUseForFree = false\<close>.
\<close>

theorem remainingFreeScans_spec:
  "(user st = None \<longrightarrow> remainingFreeScans cv st = JNum 0)
   \<and> (user st = Some u \<and> get u ''track_calories_usage'' = JNum t \<longrightarrow>
        remainingFreeScans cv st = JNum (max 0 (MAX_FREE_SCANS - t)))
   \<and> (user st = Some u \<and> get u ''track_calories_usage'' = JNum t \<and> MAX_FREE_SCANS \<le> t
        \<and> get u ''credits'' = JNum 0 \<and> get u ''is_premium'' = JBool False \<longrightarrow>
        remainingFreeScans cv st = JNum 0 \<and> \<not> canUseForFree cv st)"
  by (auto simp: remainingFreeScans_def canUseForFree_def Math_max_def js_sub_def js_or_def
        js_gt_def MAX_FREE_SCANS_def)

text \<open>Twelve scans used, no credits, not premium.\<close>

theorem remainingFreeScans_spec_witness:
  "user (store_ex False 0 12) = Some (profile_ex False 0 12)
   \<and> get (profile_ex False 0 12) ''track_calories_usage'' = JNum 12
   \<and> MAX_FREE_SCANS \<le> 12
   \<and> get (profile_ex False 0 12) ''credits'' = JNum 0
   \<and> get (profile_ex False 0 12) ''is_premium'' = JBool False
   \<and> remainingFreeScans no_conversion (store_ex False 0 12) = JNum 0
   \<and> \<not> canUseForFree no_conversion (store_ex False 0 12)"
proof -
  have h: "user (store_ex False 0 12) = Some (profile_ex False 0 12)"
    "get (profile_ex False 0 12) ''track_calories_usage'' = JNum 12"
    "MAX_FREE_SCANS \<le> 12"
    "get (profile_ex False 0 12) ''credits'' = JNum 0"
    "get (profile_ex False 0 12) ''is_premium'' = JBool False"
    by (simp_all add: store_ex_def profile_ex_def get_def MAX_FREE_SCANS_def)
  with remainingFreeScans_spec [where st = "store_ex False 0 12" and u = "profile_ex False 0 12"
      and t = 12 and cv = no_conversion]
  show ?thesis by blast
qed

text \<open>
  Claim C10. For a user who is not premium and has no credits, and whose
  \<^verbatim>\<open>track_calories_usage\<close> reads \<^verbatim>\<open>undefined\<close>, the derived values report full
  availability (\<^verbatim>\<open>remainingFreeScans = MAX_FREE_SCANS\<close>, \<^verbatim>\<open>canUseForFree = true\<close>), and yet
  \<^verbatim>\<open>incrementTrackCaloriesUsage\<close> leaves the store as it is, whatever the service would
  answer: \<^verbatim>\<open>undefined < MAX_FREE_SCANS\<close> is false.
\<close>

theorem missing_counter_free_but_not_counted:
  "user st = Some u \<and> get u ''is_premium'' = JBool False \<and> get u ''credits'' = JNum 0
   \<and> get u ''track_calories_usage'' = JUndefined \<longrightarrow>
   remainingFreeScans cv st = JNum MAX_FREE_SCANS \<and> canUseForFree cv st
   \<and> incrementTrackCaloriesUsage cv svc now st = st"
  by (auto simp: remainingFreeScans_def canUseForFree_def Math_max_def js_sub_def js_or_def
        js_gt_def js_lt_def MAX_FREE_SCANS_def incrementTrackCaloriesUsage_def)

text \<open>The profile that has no \<^verbatim>\<open>track_calories_usage\<close>.\<close>

theorem missing_counter_free_but_not_counted_witness:
  "user store_no_counter = Some profile_no_counter
   \<and> get profile_no_counter ''is_premium'' = JBool False
   \<and> get profile_no_counter ''credits'' = JNum 0
   \<and> get profile_no_counter ''track_calories_usage'' = JUndefined
   \<and> remainingFreeScans no_conversion store_no_counter = JNum MAX_FREE_SCANS
   \<and> canUseForFree no_conversion store_no_counter
   \<and> incrementTrackCaloriesUsage no_conversion echo_service ''t1'' store_no_counter = store_no_counter"
proof -
  have h: "user store_no_counter = Some profile_no_counter"
    "get profile_no_counter ''is_premium'' = JBool False"
    "get profile_no_counter ''credits'' = JNum 0"
    "get profile_no_counter ''track_calories_usage'' = JUndefined"
    by (simp_all add: store_no_counter_def profile_no_counter_def get_def)
  with missing_counter_free_but_not_counted [where st = store_no_counter and u = profile_no_counter
      and cv = no_conversion and svc = echo_service and now = "''t1''"]
  show ?thesis by blast
qed

section \<open>Profile update\<close>

text \<open>
  Claim C7. For the current user \<open>u\<close>: when the update fails, \<^verbatim>\<open>updateProfile\<close> changes
  nothing but \<^verbatim>\<open>error\<close>, which becomes the message of the failure, and returns \<^verbatim>\<open>null\<close>.
  When it succeeds with the record \<open>d\<close>, the user becomes \<open>u\<close> overridden by \<open>d\<close>: a field
  of \<open>d\<close> has the value of \<open>d\<close>, every other field keeps its value, so \<^verbatim>\<open>mealLog\<close> is kept
  when \<open>d\<close> has no such field; \<open>d\<close> is returned; \<^verbatim>\<open>error\<close> and \<^verbatim>\<open>loading\<close> are as before,
  so an earlier error is not cleared.
\<close>

theorem updateProfile_spec:
  "user st = Some u \<longrightarrow>
   (err (profiles_update svc userId (updates(''updated_at'' \<mapsto> JStr now))) = Some e \<longrightarrow>
      updateProfile svc now st userId updates = (st\<lparr>error := Some (message e)\<rparr>, None))
   \<and> (profiles_update svc userId (updates(''updated_at'' \<mapsto> JStr now)) = \<lparr>data = Some d, err = None\<rparr> \<longrightarrow>
        updateProfile svc now st userId updates = (st\<lparr>user := Some (u ++ d)\<rparr>, Some d)
        \<and> (d k = Some v \<longrightarrow> (u ++ d) k = Some v)
        \<and> (d k = None \<longrightarrow> (u ++ d) k = u k)
        \<and> (d ''mealLog'' = None \<longrightarrow> get (u ++ d) ''mealLog'' = get u ''mealLog'')
        \<and> error (fst (updateProfile svc now st userId updates)) = error st
        \<and> loading (fst (updateProfile svc now st userId updates)) = loading st)"
  by (auto simp: updateProfile_def spread_def get_def map_add_def)

text \<open>A store with an earlier error, updated through the failing and the echoing service.\<close>

theorem updateProfile_spec_witness:
  "user store_with_error = Some (profile_ex False 2 0)
   \<and> updateProfile failing_service ''t1'' store_with_error (JStr ''u1'') [''credits'' \<mapsto> JNum 5]
       = (store_with_error\<lparr>error := Some ''down''\<rparr>, None)
   \<and> get (spread (user (fst (updateProfile echo_service ''t1'' store_with_error (JStr ''u1'') [''credits'' \<mapsto> JNum 5]))))
        ''credits'' = JNum 5
   \<and> get (spread (user (fst (updateProfile echo_service ''t1'' store_with_error (JStr ''u1'') [''credits'' \<mapsto> JNum 5]))))
        ''mealLog'' = JArr []
   \<and> error (fst (updateProfile echo_service ''t1'' store_with_error (JStr ''u1'') [''credits'' \<mapsto> JNum 5]))
        = Some ''earlier''"
proof -
  let ?p = "[''credits'' \<mapsto> JNum 5, ''updated_at'' \<mapsto> JStr ''t1'']"
  let ?e = down
  have h: "user store_with_error = Some (profile_ex False 2 0)"
    by (simp add: store_with_error_def)
  have f: "err (profiles_update failing_service (JStr ''u1'') ?p) = Some ?e"
    by (simp add: failing_service_def)
  have s: "profiles_update echo_service (JStr ''u1'') ?p = \<lparr>data = Some ?p, err = None\<rparr>"
    by (simp add: echo_service_def answering_def)
  have m: "?p ''mealLog'' = None" "?p ''credits'' = Some (JNum 5)" by simp_all
  from h f updateProfile_spec [where st = store_with_error and u = "profile_ex False 2 0"
      and svc = failing_service and userId = "JStr ''u1''" and updates = "[''credits'' \<mapsto> JNum 5]"
      and now = "''t1''" and e = ?e]
  have a: "updateProfile failing_service ''t1'' store_with_error (JStr ''u1'') [''credits'' \<mapsto> JNum 5]
       = (store_with_error\<lparr>error := Some (message ?e)\<rparr>, None)"
    by blast
  from h s m updateProfile_spec [where st = store_with_error and u = "profile_ex False 2 0"
      and svc = echo_service and userId = "JStr ''u1''" and updates = "[''credits'' \<mapsto> JNum 5]"
      and now = "''t1''" and d = ?p and k = "''credits''" and v = "JNum 5"]
  have b: "updateProfile echo_service ''t1'' store_with_error (JStr ''u1'') [''credits'' \<mapsto> JNum 5]
             = (store_with_error\<lparr>user := Some (profile_ex False 2 0 ++ ?p)\<rparr>, Some ?p)"
     "(profile_ex False 2 0 ++ ?p) ''credits'' = Some (JNum 5)"
     "get (profile_ex False 2 0 ++ ?p) ''mealLog'' = get (profile_ex False 2 0) ''mealLog''"
     "error (fst (updateProfile echo_service ''t1'' store_with_error (JStr ''u1'') [''credits'' \<mapsto> JNum 5]))
        = error store_with_error"
    by blast+
  have g: "get (profile_ex False 2 0) ''mealLog'' = JArr []" "error store_with_error = Some ''earlier''"
    by (simp_all add: profile_ex_def get_def store_with_error_def)
  from h a b g show ?thesis by (simp add: spread_def get_def down_def)
qed

section \<open>Profile fetch: outcomes\<close>

text \<open>
  Claim C8. \<^verbatim>\<open>fetchUserProfile\<close> first sets \<^verbatim>\<open>loading = true\<close> and clears \<^verbatim>\<open>error\<close>: in
  the state that is visible while the queries are pending, \<^verbatim>\<open>loading\<close> is true, \<^verbatim>\<open>error\<close>
  is \<^verbatim>\<open>null\<close> and \<^verbatim>\<open>user\<close> is as before. A profile query that ends with the code
  \<^verbatim>\<open>PGRST116\<close> (no rows) and no data settles with \<^verbatim>\<open>user = null\<close> and \<^verbatim>\<open>error\<close> still
  cleared. Any other error of the profile query, and any error of the meal-log query,
  settles with \<^verbatim>\<open>user = null\<close> and \<^verbatim>\<open>error\<close> the message of that error. A profile with
  its meal log settles with the profile, \<^verbatim>\<open>mealLog\<close> set to the entries. In every outcome
  \<^verbatim>\<open>loading\<close> is false in the settled state.
\<close>

theorem fetchUserProfile_spec:
  "loading (fst (fetchUserProfile svc userId st))
   \<and> error (fst (fetchUserProfile svc userId st)) = None
   \<and> user (fst (fetchUserProfile svc userId st)) = user st
   \<and> (profiles_select svc userId = \<lparr>data = None, err = Some e\<rparr> \<and> code e = ''PGRST116'' \<longrightarrow>
        snd (fetchUserProfile svc userId st) = \<lparr>user = None, loading = False, error = None\<rparr>)
   \<and> (err (profiles_select svc userId) = Some e \<and> code e \<noteq> ''PGRST116'' \<longrightarrow>
        snd (fetchUserProfile svc userId st)
          = \<lparr>user = None, loading = False, error = Some (message e)\<rparr>)
   \<and> (profiles_select svc userId = \<lparr>data = Some profile, err = None\<rparr>
        \<and> err (meal_logs_select svc userId) = Some e \<longrightarrow>
        snd (fetchUserProfile svc userId st)
          = \<lparr>user = None, loading = False, error = Some (message e)\<rparr>)
   \<and> (profiles_select svc userId = \<lparr>data = Some profile, err = None\<rparr>
        \<and> meal_logs_select svc userId = \<lparr>data = Some mealLog, err = None\<rparr> \<longrightarrow>
        snd (fetchUserProfile svc userId st)
          = \<lparr>user = Some (profile(''mealLog'' \<mapsto> JArr mealLog)), loading = False, error = None\<rparr>)
   \<and> \<not> loading (snd (fetchUserProfile svc userId st))"
  by (auto simp: fetchUserProfile_def fetch_body_def Let_def split: sum.splits option.splits)

text \<open>
  No rows, a failing profile query, a failing meal-log query and a profile that is found,
  each starting from a store that is not loading and holds an earlier error; while the
  queries are pending that store is loading and the error is gone.
\<close>

theorem fetchUserProfile_spec_witness:
  "fst (fetchUserProfile echo_service (JStr ''u1'') store_with_error)
     = \<lparr>user = Some (profile_ex False 2 0), loading = True, error = None\<rparr>
   \<and> snd (fetchUserProfile (answering \<lparr>data = None, err = Some no_rows\<rparr> \<lparr>data = None, err = None\<rparr>)
       (JStr ''u1'') store_with_error)
     = \<lparr>user = None, loading = False, error = None\<rparr>
   \<and> snd (fetchUserProfile failing_service (JStr ''u1'') store_with_error)
     = \<lparr>user = None, loading = False, error = Some ''down''\<rparr>
   \<and> snd (fetchUserProfile (answering \<lparr>data = Some (profile_ex False 0 0), err = None\<rparr> \<lparr>data = None, err = Some down\<rparr>)
       (JStr ''u1'') store_with_error)
     = \<lparr>user = None, loading = False, error = Some ''down''\<rparr>
   \<and> snd (fetchUserProfile echo_service (JStr ''u1'') store_with_error)
     = \<lparr>user = Some ((profile_ex False 0 0)(''mealLog'' \<mapsto> JArr [])), loading = False, error = None\<rparr>"
proof -
  let ?nf = "answering \<lparr>data = None, err = Some no_rows\<rparr> \<lparr>data = None, err = None\<rparr>"
  let ?mf = "answering \<lparr>data = Some (profile_ex False 0 0), err = None\<rparr> \<lparr>data = None, err = Some down\<rparr>"
  have a: "profiles_select ?nf (JStr ''u1'') = \<lparr>data = None, err = Some no_rows\<rparr>"
    "code no_rows = ''PGRST116''"
    by (simp_all add: answering_def no_rows_def)
  have b: "err (profiles_select failing_service (JStr ''u1'')) = Some down" "code down \<noteq> ''PGRST116''"
    by (simp_all add: failing_service_def down_def)
  have c: "profiles_select ?mf (JStr ''u1'') = \<lparr>data = Some (profile_ex False 0 0), err = None\<rparr>"
    "err (meal_logs_select ?mf (JStr ''u1'')) = Some down"
    by (simp_all add: answering_def)
  have d: "profiles_select echo_service (JStr ''u1'') = \<lparr>data = Some (profile_ex False 0 0), err = None\<rparr>"
    "meal_logs_select echo_service (JStr ''u1'') = \<lparr>data = Some [], err = None\<rparr>"
    by (simp_all add: echo_service_def answering_def)
  have m: "message down = ''down''" "user store_with_error = Some (profile_ex False 2 0)"
    by (simp_all add: down_def store_with_error_def)
  from a fetchUserProfile_spec [where svc = ?nf and userId = "JStr ''u1''" and st = store_with_error
      and e = no_rows]
  have 1: "snd (fetchUserProfile ?nf (JStr ''u1'') store_with_error)
     = \<lparr>user = None, loading = False, error = None\<rparr>"
    by blast
  from b fetchUserProfile_spec [where svc = failing_service and userId = "JStr ''u1''"
      and st = store_with_error and e = down]
  have 2: "snd (fetchUserProfile failing_service (JStr ''u1'') store_with_error)
     = \<lparr>user = None, loading = False, error = Some (message down)\<rparr>"
    by blast
  from c fetchUserProfile_spec [where svc = ?mf and userId = "JStr ''u1''"
      and st = store_with_error and e = down and profile = "profile_ex False 0 0"]
  have 3: "snd (fetchUserProfile ?mf (JStr ''u1'') store_with_error)
     = \<lparr>user = None, loading = False, error = Some (message down)\<rparr>"
    by blast
  from d fetchUserProfile_spec [where svc = echo_service and userId = "JStr ''u1''"
      and st = store_with_error and profile = "profile_ex False 0 0" and mealLog = "[]"]
  have 4: "snd (fetchUserProfile echo_service (JStr ''u1'') store_with_error)
     = \<lparr>user = Some ((profile_ex False 0 0)(''mealLog'' \<mapsto> JArr [])), loading = False, error = None\<rparr>"
    and 5: "loading (fst (fetchUserProfile echo_service (JStr ''u1'') store_with_error))"
      "error (fst (fetchUserProfile echo_service (JStr ''u1'') store_with_error)) = None"
      "user (fst (fetchUserProfile echo_service (JStr ''u1'') store_with_error)) = user store_with_error"
    by blast+
  from 5 m have 6: "fst (fetchUserProfile echo_service (JStr ''u1'') store_with_error)
     = \<lparr>user = Some (profile_ex False 2 0), loading = True, error = None\<rparr>"
    by (cases "fst (fetchUserProfile echo_service (JStr ''u1'') store_with_error)") simp
  from 1 2 3 4 6 m show ?thesis by simp
qed

section \<open>Adding a meal\<close>

lemma mealToAdd_ignores_id: "mealToAdd (mealItem(''id'' \<mapsto> v)) u now = mealToAdd mealItem u now"
  by (rule ext) (simp add: mealToAdd_def)

text \<open>
  Claim C6. For the current user \<open>u\<close> and any \<^verbatim>\<open>mealItem\<close>, the record sent to the service
  has \<^verbatim>\<open>user_id = u.id\<close> and \<^verbatim>\<open>scanned_at\<close> the current time, has no \<^verbatim>\<open>id\<close>, and agrees
  with \<^verbatim>\<open>mealItem\<close> on every other field; an \<^verbatim>\<open>id\<close> supplied by the client has no effect
  on the operation. When the insert succeeds with the record \<open>d\<close> and \<^verbatim>\<open>mealLog\<close> is the
  array \<open>xs\<close>, the store's \<^verbatim>\<open>mealLog\<close> becomes \<open>d\<close> followed by \<open>xs\<close>, and \<open>d\<close> is returned;
  when the service returned \<^verbatim>\<open>user_id\<close> and \<^verbatim>\<open>scanned_at\<close> as they were sent, that first
  element has \<^verbatim>\<open>user_id = u.id\<close> and the fresh \<^verbatim>\<open>scanned_at\<close>.
\<close>

theorem addMealToLog_spec:
  "user st = Some u \<longrightarrow>
   get (mealToAdd mealItem u now) ''user_id'' = get u ''id''
   \<and> get (mealToAdd mealItem u now) ''scanned_at'' = JStr now
   \<and> mealToAdd mealItem u now ''id'' = None
   \<and> (k \<noteq> ''user_id'' \<and> k \<noteq> ''scanned_at'' \<and> k \<noteq> ''id'' \<longrightarrow> mealToAdd mealItem u now k = mealItem k)
   \<and> addMealToLog svc now st (mealItem(''id'' \<mapsto> v)) = addMealToLog svc now st mealItem
   \<and> (meal_logs_insert svc (mealToAdd mealItem u now) = \<lparr>data = Some d, err = None\<rparr>
        \<and> get u ''mealLog'' = JArr xs \<longrightarrow>
        addMealToLog svc now st mealItem
          = Inr (st\<lparr>user := Some (u(''mealLog'' \<mapsto> JArr (JObj d # xs)))\<rparr>, JObj d)
        \<and> (d ''user_id'' = mealToAdd mealItem u now ''user_id''
             \<and> d ''scanned_at'' = mealToAdd mealItem u now ''scanned_at'' \<longrightarrow>
             get d ''user_id'' = get u ''id'' \<and> get d ''scanned_at'' = JStr now))"
proof (intro impI conjI)
  assume u: "user st = Some u"
  show "get (mealToAdd mealItem u now) ''user_id'' = get u ''id''"
    "get (mealToAdd mealItem u now) ''scanned_at'' = JStr now"
    "mealToAdd mealItem u now ''id'' = None"
    by (simp_all add: mealToAdd_def get_def)
  show "addMealToLog svc now st (mealItem(''id'' \<mapsto> v)) = addMealToLog svc now st mealItem"
    using u by (simp add: addMealToLog_def mealToAdd_ignores_id)
  {
    assume "k \<noteq> ''user_id'' \<and> k \<noteq> ''scanned_at'' \<and> k \<noteq> ''id''"
    then show "mealToAdd mealItem u now k = mealItem k"
      by (simp add: mealToAdd_def)
  }
  {
    assume a: "meal_logs_insert svc (mealToAdd mealItem u now) = \<lparr>data = Some d, err = None\<rparr>
        \<and> get u ''mealLog'' = JArr xs"
    then show "addMealToLog svc now st mealItem
          = Inr (st\<lparr>user := Some (u(''mealLog'' \<mapsto> JArr (JObj d # xs)))\<rparr>, JObj d)"
      using u by (simp add: addMealToLog_def mealLog_updater_def js_or_def value_of_def)
    assume "d ''user_id'' = mealToAdd mealItem u now ''user_id''
             \<and> d ''scanned_at'' = mealToAdd mealItem u now ''scanned_at''"
    then show "get d ''user_id'' = get u ''id''" "get d ''scanned_at'' = JStr now"
      by (simp_all add: mealToAdd_def get_def)
  }
qed

text \<open>An apple for user \<^verbatim>\<open>u1\<close>, with and without an id of the client's.\<close>

theorem addMealToLog_spec_witness:
  "user (store_ex False 0 0) = Some (profile_ex False 0 0)
   \<and> get (profile_ex False 0 0) ''mealLog'' = JArr []
   \<and> addMealToLog echo_service ''t1'' (store_ex False 0 0) (apple(''id'' \<mapsto> JNum 77))
       = addMealToLog echo_service ''t1'' (store_ex False 0 0) apple
   \<and> addMealToLog echo_service ''t1'' (store_ex False 0 0) apple
       = Inr ((store_ex False 0 0)\<lparr>user := Some ((profile_ex False 0 0)(''mealLog'' \<mapsto>
                 JArr [JObj ((mealToAdd apple (profile_ex False 0 0) ''t1'')(''id'' \<mapsto> JNum 1))]))\<rparr>,
              JObj ((mealToAdd apple (profile_ex False 0 0) ''t1'')(''id'' \<mapsto> JNum 1)))
   \<and> get ((mealToAdd apple (profile_ex False 0 0) ''t1'')(''id'' \<mapsto> JNum 1)) ''user_id'' = JStr ''u1''
   \<and> get ((mealToAdd apple (profile_ex False 0 0) ''t1'')(''id'' \<mapsto> JNum 1)) ''scanned_at'' = JStr ''t1''"
proof -
  let ?u = "profile_ex False 0 0"
  let ?d = "(mealToAdd apple ?u ''t1'')(''id'' \<mapsto> JNum 1)"
  have h: "user (store_ex False 0 0) = Some ?u" "get ?u ''mealLog'' = JArr []" "get ?u ''id'' = JStr ''u1''"
    by (simp_all add: store_ex_def profile_ex_def get_def)
  have r: "meal_logs_insert echo_service (mealToAdd apple ?u ''t1'') = \<lparr>data = Some ?d, err = None\<rparr>"
    by (simp add: echo_service_def answering_def)
  have e: "?d ''user_id'' = mealToAdd apple ?u ''t1'' ''user_id''"
    "?d ''scanned_at'' = mealToAdd apple ?u ''t1'' ''scanned_at''"
    by simp_all
  from h r e addMealToLog_spec [where st = "store_ex False 0 0" and u = ?u and mealItem = apple
      and now = "''t1''" and svc = echo_service and d = ?d and xs = "[]" and v = "JNum 77"]
  have "addMealToLog echo_service ''t1'' (store_ex False 0 0) (apple(''id'' \<mapsto> JNum 77))
       = addMealToLog echo_service ''t1'' (store_ex False 0 0) apple"
    and "addMealToLog echo_service ''t1'' (store_ex False 0 0) apple
       = Inr ((store_ex False 0 0)\<lparr>user := Some (?u(''mealLog'' \<mapsto> JArr [JObj ?d]))\<rparr>, JObj ?d)"
    and "get ?d ''user_id'' = get ?u ''id''" and "get ?d ''scanned_at'' = JStr ''t1''"
    by blast+
  with h show ?thesis by simp
qed

section \<open>Counters that are never negative\<close>

lemma positive_integer_pred: "(c::rat) \<in> \<int> \<Longrightarrow> 0 < c \<Longrightarrow> c - 1 \<in> \<int> \<and> 0 \<le> c - 1"
proof -
  assume c: "c \<in> \<int>" and pos: "0 < c"
  from c obtain z :: int where z: "c = of_int z" by (rule Ints_cases)
  with pos have "1 \<le> z" by simp
  then have "(1::rat) \<le> of_int z" by (metis of_int_1 of_int_le_iff)
  with z c show ?thesis by simp
qed

lemma written_back_non_negative:
  assumes "written_back p d k" "non_negative (get u k)"
    and "p k = None \<or> (\<exists>w. p k = Some w \<and> non_negative w)"
  shows "non_negative (get (u ++ d) k)"
  using assms by (auto simp: written_back_def get_map_add split: option.splits)

lemma updateProfile_keeps_counters:
  assumes u: "user st = Some u" and ok: "counters_ok u" and svc: "service_keeps_counters svc"
    and c: "updates ''credits'' = None \<or> (\<exists>w. updates ''credits'' = Some w \<and> non_negative w)"
    and t: "updates ''track_calories_usage'' = None
            \<or> (\<exists>w. updates ''track_calories_usage'' = Some w \<and> non_negative w)"
  shows "counters_never_negative (fst (updateProfile svc now st userId updates))"
proof -
  let ?p = "updates(''updated_at'' \<mapsto> JStr now)"
  let ?r = "profiles_update svc userId ?p"
  show ?thesis
  proof (cases "err ?r")
    case (Some e)
    then show ?thesis using u ok
      by (simp add: updateProfile_def counters_never_negative_def)
  next
    case None
    show ?thesis
    proof (cases "data ?r")
      case N: None
      then show ?thesis using None u ok
        by (simp add: updateProfile_def counters_never_negative_def spread_def)
    next
      case (Some d)
      with None svc have wb: "written_back ?p d ''credits''" "written_back ?p d ''track_calories_usage''"
        unfolding service_keeps_counters_def by blast+
      have pc: "?p ''credits'' = None \<or> (\<exists>w. ?p ''credits'' = Some w \<and> non_negative w)"
        and pt: "?p ''track_calories_usage'' = None
                 \<or> (\<exists>w. ?p ''track_calories_usage'' = Some w \<and> non_negative w)"
        using c t by simp_all
      from ok have "non_negative (get u ''credits'')" "non_negative (get u ''track_calories_usage'')"
        by (simp_all add: counters_ok_def)
      then have "counters_ok (u ++ d)"
        unfolding counters_ok_def
        using written_back_non_negative [OF wb(1) _ pc] written_back_non_negative [OF wb(2) _ pt]
        by blast
      then show ?thesis using None Some u
        by (simp add: updateProfile_def counters_never_negative_def spread_def)
    qed
  qed
qed

lemma non_negative_JNum: "non_negative v \<Longrightarrow> \<exists>n. v = JNum n \<and> n \<in> \<int> \<and> 0 \<le> n"
  by (cases v) (simp_all add: non_negative_def)

lemma fetch_keeps_counters:
  assumes "service_keeps_counters svc"
  shows "counters_never_negative (snd (fetchUserProfile svc userId st))"
proof -
  have "\<And>d. data (profiles_select svc userId) = Some d \<Longrightarrow> counters_ok d"
    using assms unfolding service_keeps_counters_def by blast
  then show ?thesis
    by (auto simp: fetchUserProfile_def fetch_body_def Let_def
          counters_never_negative_def counters_ok_def get_def
          split: sum.splits option.splits if_splits)
qed

lemma step_keeps_counters:
  assumes inv: "counters_never_negative st" and svc: "service_keeps_counters svc"
    and am: "\<forall>amount. op = AddCredits amount \<longrightarrow> amount_covered st amount"
    and s: "step cv svc now st op = Inr st'"
  shows "counters_never_negative st'"
proof (cases "user st")
  case None
  show ?thesis
  proof (cases op)
    case (FetchUserProfile userId)
    with s svc show ?thesis by (auto simp: fetch_keeps_counters)
  qed (use s None inv in \<open>auto simp: incrementTrackCaloriesUsage_def addCredits_def
         useCreditForScan_def setPremium_def addMealToLog_def\<close>)
next
  case (Some u)
  with inv have ok: "counters_ok u" by (simp add: counters_never_negative_def)
  then obtain c t where c: "get u ''credits'' = JNum c" "c \<in> \<int>" "0 \<le> c"
    and t: "get u ''track_calories_usage'' = JNum t" "t \<in> \<int>" "0 \<le> t"
    unfolding counters_ok_def by (blast dest: non_negative_JNum)
  note upd = updateProfile_keeps_counters [OF Some ok svc]
  show ?thesis
  proof (cases op)
    case (FetchUserProfile userId)
    with s svc show ?thesis by (auto simp: fetch_keeps_counters)
  next
    case IncrementTrackCaloriesUsage
    have "counters_never_negative (incrementTrackCaloriesUsage cv svc now st)"
      unfolding incrementTrackCaloriesUsage_def using Some inv t
      by (auto simp: js_add_def non_negative_def intro!: upd)
    with s IncrementTrackCaloriesUsage show ?thesis by simp
  next
    case (AddCredits amount)
    with am have "amount_covered st amount" by simp
    then obtain a where a: "amount = JNum a" "a \<in> \<int>" "0 \<le> c + a"
      using Some c by (auto simp: amount_covered_def split: jsval.splits)
    have "counters_never_negative (addCredits cv svc now st amount)"
      unfolding addCredits_def using Some c a
      by (auto simp: js_add_def js_or_def non_negative_def intro!: upd)
    with s AddCredits show ?thesis by simp
  next
    case UseCreditForScan
    have "counters_never_negative (fst (useCreditForScan cv svc now st))"
    proof (cases "c \<le> 0")
      case True
      then show ?thesis using Some inv c
        by (simp add: useCreditForScan_def js_le_def)
    next
      case False
      then have "c - 1 \<in> \<int> \<and> 0 \<le> c - 1"
        using c by (intro positive_integer_pred) simp_all
      then have "non_negative (JNum (c - 1))"
        by (simp add: non_negative_def)
      then show ?thesis using False Some c
        by (auto simp: useCreditForScan_def js_le_def js_sub_def intro!: upd)
    qed
    with s UseCreditForScan show ?thesis by simp
  next
    case (SetPremium v)
    have "counters_never_negative (setPremium svc now st v)"
      unfolding setPremium_def using Some
      by (auto intro!: upd)
    with s SetPremium show ?thesis by simp
  next
    case (AddMealToLog mealItem)
    with s Some ok show ?thesis
      by (auto simp: addMealToLog_def mealLog_updater_def Let_def counters_never_negative_def
            counters_ok_def get_def split: option.splits sum.splits)
  qed
qed

lemma addCredits_writes_sum:
  assumes "user st = Some u" "get u ''credits'' = JNum c"
    and "profiles_update svc (get u ''id'') [''credits'' \<mapsto> JNum (c + a), ''updated_at'' \<mapsto> JStr now]
         = \<lparr>data = Some d, err = None\<rparr>"
  shows "addCredits cv svc now st (JNum a) = st\<lparr>user := Some (u ++ d)\<rparr>"
  using assms by (auto simp: addCredits_def updateProfile_def js_add_def js_or_def spread_def)

text \<open>
  Claim C2, as amended. Every operation of the store preserves the invariant that
  \<^verbatim>\<open>credits\<close> and \<^verbatim>\<open>track_calories_usage\<close> are integers that are not negative, provided
  that the data service keeps it (the profiles it delivers have such counters, and an
  updated record is returned as it was written) and that \<^verbatim>\<open>addCredits\<close> is called with an
  integer \<open>a\<close> such that \<open>0 \<le> credits + a\<close>. \<^verbatim>\<open>addCredits\<close> rejects no amount: called with
  a number \<open>a\<close> such that \<open>credits + a < 0\<close>, it writes \<open>credits + a\<close>, and once the service
  has returned that record the credits of the store are this negative number and the
  invariant is broken.
\<close>

theorem counters_never_negative_preserved:
  "(counters_never_negative st \<and> service_keeps_counters svc
     \<and> (\<forall>amount. op = AddCredits amount \<longrightarrow> amount_covered st amount)
     \<and> step cv svc now st op = Inr st'
     \<longrightarrow> counters_never_negative st')
   \<and> (user st = Some u \<and> get u ''credits'' = JNum c \<and> c + a < 0
       \<and> profiles_update svc (get u ''id'') [''credits'' \<mapsto> JNum (c + a), ''updated_at'' \<mapsto> JStr now]
          = \<lparr>data = Some d, err = None\<rparr>
       \<and> get d ''credits'' = JNum (c + a)
       \<longrightarrow> get (spread (user (addCredits cv svc now st (JNum a)))) ''credits'' = JNum (c + a)
           \<and> \<not> counters_never_negative (addCredits cv svc now st (JNum a)))"
proof (intro conjI impI)
  assume "counters_never_negative st \<and> service_keeps_counters svc
     \<and> (\<forall>amount. op = AddCredits amount \<longrightarrow> amount_covered st amount)
     \<and> step cv svc now st op = Inr st'"
  then show "counters_never_negative st'"
    by (blast intro: step_keeps_counters)
next
  assume a: "user st = Some u \<and> get u ''credits'' = JNum c \<and> c + a < 0
       \<and> profiles_update svc (get u ''id'') [''credits'' \<mapsto> JNum (c + a), ''updated_at'' \<mapsto> JStr now]
          = \<lparr>data = Some d, err = None\<rparr>
       \<and> get d ''credits'' = JNum (c + a)"
  then have st1: "addCredits cv svc now st (JNum a) = st\<lparr>user := Some (u ++ d)\<rparr>"
    by (intro addCredits_writes_sum) blast+
  have g: "get (u ++ d) ''credits'' = JNum (c + a)"
    using a by (intro get_written) blast
  show "get (spread (user (addCredits cv svc now st (JNum a)))) ''credits'' = JNum (c + a)"
    by (simp add: st1 spread_def g)
  show "\<not> counters_never_negative (addCredits cv svc now st (JNum a))"
    using a by (simp add: st1 counters_never_negative_def counters_ok_def g non_negative_def)
qed

lemma echo_service_keeps_counters: "service_keeps_counters echo_service"
  by (auto simp: service_keeps_counters_def echo_service_def answering_def written_back_def
        counters_ok_def non_negative_def profile_ex_def get_def split: option.splits)

text \<open>
  Two credits. The amount \<open>- 2\<close> leaves no credits and the invariant holds; the amount
  \<open>- 3\<close> leaves \<open>- 1\<close>.
\<close>

theorem counters_never_negative_preserved_witness:
  "counters_never_negative (store_ex False 2 0)
   \<and> service_keeps_counters echo_service
   \<and> amount_covered (store_ex False 2 0) (JNum (- 2))
   \<and> step no_conversion echo_service ''t1'' (store_ex False 2 0) (AddCredits (JNum (- 2)))
       = Inr (addCredits no_conversion echo_service ''t1'' (store_ex False 2 0) (JNum (- 2)))
   \<and> counters_never_negative (addCredits no_conversion echo_service ''t1'' (store_ex False 2 0) (JNum (- 2)))
   \<and> get (spread (user (addCredits no_conversion echo_service ''t1'' (store_ex False 2 0) (JNum (- 3)))))
        ''credits'' = JNum (- 1)
   \<and> \<not> counters_never_negative (addCredits no_conversion echo_service ''t1'' (store_ex False 2 0) (JNum (- 3)))"
proof -
  let ?u = "profile_ex False 2 0"
  let ?d = "[''credits'' \<mapsto> JNum (2 + - 3), ''updated_at'' \<mapsto> JStr ''t1'']"
  have h: "counters_never_negative (store_ex False 2 0)"
    "amount_covered (store_ex False 2 0) (JNum (- 2))"
    by (simp_all add: counters_never_negative_def counters_ok_def non_negative_def store_ex_def
          profile_ex_def get_def amount_covered_def)
  have a: "\<forall>amount. AddCredits (JNum (- 2)) = AddCredits amount \<longrightarrow> amount_covered (store_ex False 2 0) amount"
    using h by simp
  have s: "step no_conversion echo_service ''t1'' (store_ex False 2 0) (AddCredits (JNum (- 2)))
       = Inr (addCredits no_conversion echo_service ''t1'' (store_ex False 2 0) (JNum (- 2)))"
    by simp
  have n: "user (store_ex False 2 0) = Some ?u" "get ?u ''credits'' = JNum 2" "(2::rat) + - 3 < 0"
    "profiles_update echo_service (get ?u ''id'') [''credits'' \<mapsto> JNum (2 + - 3), ''updated_at'' \<mapsto> JStr ''t1'']
       = \<lparr>data = Some ?d, err = None\<rparr>"
    "get ?d ''credits'' = JNum (2 + - 3)"
    by (simp_all add: store_ex_def profile_ex_def get_def echo_service_def answering_def)
  note T = counters_never_negative_preserved [where st = "store_ex False 2 0" and svc = echo_service
      and op = "AddCredits (JNum (- 2))" and cv = no_conversion and now = "''t1''"
      and st' = "addCredits no_conversion echo_service ''t1'' (store_ex False 2 0) (JNum (- 2))"
      and u = ?u and c = 2 and a = "- 3" and d = ?d]
  from h a s echo_service_keeps_counters T
  have 1: "counters_never_negative (addCredits no_conversion echo_service ''t1'' (store_ex False 2 0) (JNum (- 2)))"
    by blast
  from n T
  have 2: "get (spread (user (addCredits no_conversion echo_service ''t1'' (store_ex False 2 0) (JNum (- 3)))))
        ''credits'' = JNum (2 + - 3)"
    "\<not> counters_never_negative (addCredits no_conversion echo_service ''t1'' (store_ex False 2 0) (JNum (- 3)))"
    by blast+
  from h s echo_service_keeps_counters 1 2 show ?thesis by simp
qed

text \<open>
  Claim C2, as stated, fails: \<^verbatim>\<open>addCredits\<close> does not reject a negative amount. From no
  credits, the amount \<open>- 5\<close> is written as it is, and the store then holds
  \<^verbatim>\<open>credits = -5\<close>.
\<close>

theorem addCredits_negative_amount_counterexample:
  "counters_never_negative (store_ex False 0 0)
   \<and> get (spread (user (addCredits no_conversion echo_service ''t1'' (store_ex False 0 0) (JNum (- 5)))))
        ''credits'' = JNum (- 5)
   \<and> \<not> counters_never_negative (addCredits no_conversion echo_service ''t1'' (store_ex False 0 0) (JNum (- 5)))"
  by (simp add: addCredits_def updateProfile_def ex_defs js_add_def js_or_def get_def spread_def
        counters_never_negative_def counters_ok_def non_negative_def)

text \<open>
  The invariant speaks of integers for a reason: the operations compute on any number.
  From half a credit, which is not negative, \<^verbatim>\<open>useCreditForScan\<close> passes its guard
  (\<^verbatim>\<open>0.5 <= 0\<close> is false), writes \<open>- 1 / 2\<close> and returns \<^verbatim>\<open>true\<close>.
\<close>

lemma useCreditForScan_half_credit:
  "get (spread (user (fst (useCreditForScan no_conversion echo_service ''t1'' (store_ex False (1 / 2) 0)))))
     ''credits'' = JNum (- 1 / 2)
   \<and> snd (useCreditForScan no_conversion echo_service ''t1'' (store_ex False (1 / 2) 0))"
  by (simp add: useCreditForScan_def updateProfile_def ex_defs js_sub_def js_le_def get_def spread_def)

end
